theory Spec2Isabelle
  imports Main "HOL-Library.Word"
begin

section \<open>JavaScript values\<close>

text \<open>
  A JavaScript string is a sequence of 16-bit code units; \<open>length\<close> is the
  source's \<open>.length\<close>.  The literals of \<open>server.js\<close> are ASCII and are written
  through \<open>js\<close>.
\<close>

type_synonym jsstring = "16 word list"

definition js :: "string \<Rightarrow> jsstring" where
  "js s = map of_char s"

text \<open>
  A value of a parsed JSON request body.  \<open>Undefined\<close> is what destructuring
  yields for a field the body does not have.  Of a number the handlers observe
  only whether it is zero (integers stand for all JSON numbers).
\<close>

datatype jsval =
    Undefined
  | Null
  | JBool bool
  | JNum int
  | JStr jsstring
  | JArr "jsval list"
  | JObj "(jsstring \<times> jsval) list"

text \<open>ToBoolean: what \<open>!x\<close>, \<open>if (x)\<close> and \<open>x || y\<close> test.\<close>

fun truthy :: "jsval \<Rightarrow> bool" where
  "truthy Undefined = False"
| "truthy Null = False"
| "truthy (JBool b) = b"
| "truthy (JNum n) = (n \<noteq> 0)"
| "truthy (JStr s) = (s \<noteq> [])"
| "truthy (JArr xs) = True"
| "truthy (JObj kvs) = True"

text \<open>\<open>a || b\<close>\<close>

definition or_else :: "jsval \<Rightarrow> jsval \<Rightarrow> jsval" where
  "or_else a b = (if truthy a then a else b)"

text \<open>
  A field of the body of a registration request: a JSON string, number, boolean
  or \<open>null\<close>, or absent.  (Arrays and objects in these fields are not
  represented.)  As for \<open>jsval\<close>, an integer stands for any JSON number: the
  handler observes only whether it is zero and whether two numbers are equal.
\<close>

datatype field =
    Absent
  | FNull
  | FBool bool
  | FNum int
  | FStr jsstring

fun truthy_field :: "field \<Rightarrow> bool" where
  "truthy_field Absent = False"
| "truthy_field FNull = False"
| "truthy_field (FBool b) = b"
| "truthy_field (FNum n) = (n \<noteq> 0)"
| "truthy_field (FStr s) = (s \<noteq> [])"

text \<open>
  \<open>x.length\<close>, read only on a truthy \<open>x\<close>: the number of code units of a string,
  and \<open>undefined\<close> (\<open>None\<close>) on a number or a boolean.
\<close>

fun js_length :: "field \<Rightarrow> nat option" where
  "js_length (FStr s) = Some (length s)"
| "js_length v = None"

text \<open>\<open>x.length < n\<close>; \<open>undefined < n\<close> is false.\<close>

definition length_less :: "field \<Rightarrow> nat \<Rightarrow> bool" where
  "length_less x n = (case js_length x of None \<Rightarrow> False | Some l \<Rightarrow> l < n)"

subsection \<open>parseInt on a path parameter\<close>

text \<open>
  WhiteSpace and LineTerminator code units: what \<open>parseInt\<close> skips in front and
  what \<open>\s\<close> matches in a regular expression.
\<close>

definition is_space :: "16 word \<Rightarrow> bool" where
  "is_space c \<longleftrightarrow>
     c \<in> {0x09, 0x0A, 0x0B, 0x0C, 0x0D, 0x20, 0xA0, 0x1680, 0x2028, 0x2029,
          0x202F, 0x205F, 0x3000, 0xFEFF}
     \<or> (0x2000 \<le> c \<and> c \<le> 0x200A)"

definition digit_val :: "nat \<Rightarrow> 16 word \<Rightarrow> nat option" where
  "digit_val radix c =
     (let n = unat c;
          v = (if 48 \<le> n \<and> n \<le> 57 then Some (n - 48)
               else if 97 \<le> n \<and> n \<le> 122 then Some (n - 87)
               else if 65 \<le> n \<and> n \<le> 90 then Some (n - 55)
               else None)
      in case v of None \<Rightarrow> None | Some d \<Rightarrow> if d < radix then Some d else None)"

fun digits_val :: "nat \<Rightarrow> nat \<Rightarrow> 16 word list \<Rightarrow> nat" where
  "digits_val radix acc [] = acc"
| "digits_val radix acc (c # cs) =
     (case digit_val radix c of
        None \<Rightarrow> acc
      | Some d \<Rightarrow> digits_val radix (acc * radix + d) cs)"

text \<open>
  \<open>parseInt(s)\<close> with no radix: leading white space, a sign, an optional
  \<open>0x\<close>, then the longest prefix of digits; \<open>None\<close> is NaN.  The result is
  exact; the rounding of values beyond \<open>2^53\<close> to a double is not represented.
\<close>

definition parseInt :: "jsstring \<Rightarrow> int option" where
  "parseInt s =
     (let t = dropWhile is_space s;
          sgn = (case t of c # _ \<Rightarrow> if c = 0x2D then - 1 else 1 | [] \<Rightarrow> (1::int));
          t1 = (case t of c # r \<Rightarrow> if c = 0x2B \<or> c = 0x2D then r else t | [] \<Rightarrow> t);
          hex = (case t1 of a # b # _ \<Rightarrow> a = 0x30 \<and> (b = 0x78 \<or> b = 0x58) | _ \<Rightarrow> False);
          radix = (if hex then 16 else 10);
          t2 = (if hex then drop 2 t1 else t1)
      in case t2 of
           [] \<Rightarrow> None
         | c # _ \<Rightarrow>
             (case digit_val radix c of
                None \<Rightarrow> None
              | Some _ \<Rightarrow> Some (sgn * int (digits_val radix 0 t2))))"

section \<open>Documents and the store\<close>

record user =
  user_username :: field
  user_email :: jsstring
  user_password :: jsstring
  user_isAdmin :: bool

record reply =
  reply_id :: int
  reply_author :: jsval
  reply_content :: jsval
  reply_timestamp :: jsstring

text \<open>A stored post may lack the \<open>replies\<close> field (\<open>None\<close>).\<close>

record post =
  post_id :: int
  post_author :: jsval
  post_content :: jsval
  post_image :: jsval
  post_timestamp :: jsstring
  post_replies :: "reply list option"

record patch =
  patch_id :: int
  patch_version :: jsval
  patch_date :: jsval
  patch_text :: jsval

text \<open>
  The three collections, each in natural (insertion) order.  The
  storage-assigned \<open>_id\<close> of a document is not represented.
\<close>

record store =
  users :: "user list"
  posts :: "post list"
  patches :: "patch list"

subsection \<open>Collection operations\<close>

text \<open>
  The driver calls the handlers make, on one collection.  A filter is a
  predicate on documents; the single-document operations act on the first
  document in natural order that satisfies it.
\<close>

definition countDocuments :: "'a list \<Rightarrow> nat" where
  "countDocuments c = length c"

definition insertOne :: "'a \<Rightarrow> 'a list \<Rightarrow> 'a list" where
  "insertOne d c = c @ [d]"

definition findOne :: "('a \<Rightarrow> bool) \<Rightarrow> 'a list \<Rightarrow> 'a option" where
  "findOne f c = find f c"

text \<open>\<open>deleteOne\<close>: the pair of \<open>deletedCount\<close> and the collection afterwards.\<close>

fun deleteOne :: "('a \<Rightarrow> bool) \<Rightarrow> 'a list \<Rightarrow> nat \<times> 'a list" where
  "deleteOne f [] = (0, [])"
| "deleteOne f (d # c) =
     (if f d then (1, c) else (case deleteOne f c of (n, c') \<Rightarrow> (n, d # c')))"

text \<open>\<open>updateOne\<close>: the pair of \<open>matchedCount\<close> and the collection afterwards.\<close>

fun updateOne :: "('a \<Rightarrow> bool) \<Rightarrow> ('a \<Rightarrow> 'a) \<Rightarrow> 'a list \<Rightarrow> nat \<times> 'a list" where
  "updateOne f u [] = (0, [])"
| "updateOne f u (d # c) =
     (if f d then (1, u d # c) else (case updateOne f u c of (n, c') \<Rightarrow> (n, d # c')))"

text \<open>
  \<open>findOneAndUpdate\<close> with \<open>returnDocument: 'after'\<close>: \<open>result.value\<close> (the
  updated document, or \<open>None\<close> for null) and the collection afterwards.
\<close>

fun findOneAndUpdate :: "('a \<Rightarrow> bool) \<Rightarrow> ('a \<Rightarrow> 'a) \<Rightarrow> 'a list \<Rightarrow> 'a option \<times> 'a list" where
  "findOneAndUpdate f u [] = (None, [])"
| "findOneAndUpdate f u (d # c) =
     (if f d then (Some (u d), u d # c)
      else (case findOneAndUpdate f u c of (r, c') \<Rightarrow> (r, d # c')))"

text \<open>
  A store call is awaited inside \<open>try\<close>: it either rejects (\<open>Threw\<close>, and the
  \<open>catch\<close> branch answers 500) or yields its result.  Which calls of a request
  reject is given by \<open>fault\<close>, indexed by the position of the call in the handler.
\<close>

datatype 'a outcome = Threw | Ok 'a

definition await :: "(nat \<Rightarrow> bool) \<Rightarrow> nat \<Rightarrow> 'a \<Rightarrow> 'a outcome" where
  "await fault k r = (if fault k then Threw else Ok r)"

section \<open>Requests and responses\<close>

text \<open>The fields the post and patch handlers destructure from \<open>req.body\<close>.\<close>

record body =
  author :: jsval
  content :: jsval
  image' :: jsval
  version :: jsval
  date :: jsval
  text' :: jsval
  isAdmin :: jsval

datatype payload =
    Error string
  | Message string
  | Registered string field field
  | LoggedIn string field jsstring bool
  | PostDoc post
  | ReplyDoc reply
  | PatchDoc patch
  | PostList "post list"
  | PatchList "patch list"

record response =
  status :: nat
  payload :: payload

definition respond :: "nat \<Rightarrow> payload \<Rightarrow> response" where
  "respond c p = \<lparr>status = c, payload = p\<rparr>"

text \<open>\<open>Date.now()\<close> and \<open>new Date().toISOString()\<close> as read by one request.\<close>

record clock =
  now :: int
  isoString :: jsstring

section \<open>Discussion service\<close>

text \<open>GET /api/posts\<close>

definition list_posts :: "(nat \<Rightarrow> bool) \<Rightarrow> store \<Rightarrow> response \<times> store" where
  "list_posts fault s =
     (case await fault 0 (posts s) of
        Threw \<Rightarrow> (respond 500 (Error ''Server error fetching posts''), s)
      | Ok ps \<Rightarrow>
          (respond 200
             (PostList (map (\<lambda>p. p\<lparr>post_replies :=
                 Some (case post_replies p of None \<Rightarrow> [] | Some rs \<Rightarrow> rs)\<rparr>) ps)), s))"

text \<open>POST /api/posts\<close>

definition new_post :: "clock \<Rightarrow> body \<Rightarrow> post" where
  "new_post clk b =
     \<lparr>post_id = now clk,
      post_author = or_else (author b) (JStr (js ''Anonymous'')),
      post_content = content b,
      post_image = or_else (image' b) Null,
      post_timestamp = isoString clk,
      post_replies = Some []\<rparr>"

definition create_post :: "clock \<Rightarrow> (nat \<Rightarrow> bool) \<Rightarrow> body \<Rightarrow> store \<Rightarrow> response \<times> store" where
  "create_post clk fault b s =
     (if \<not> truthy (content b) then
        (respond 400 (Error ''Post content is required''), s)
      else
        let p = new_post clk b
        in case await fault 0 (insertOne p (posts s)) of
             Threw \<Rightarrow> (respond 500 (Error ''Server error creating post''), s)
           | Ok ps \<Rightarrow> (respond 201 (PostDoc p), s\<lparr>posts := ps\<rparr>))"

text \<open>DELETE /api/posts/:id\<close>

definition delete_post :: "(nat \<Rightarrow> bool) \<Rightarrow> jsstring \<Rightarrow> body \<Rightarrow> store \<Rightarrow> response \<times> store" where
  "delete_post fault id_param b s =
     (if \<not> truthy (isAdmin b) then
        (respond 403 (Error ''Only administrators can delete posts''), s)
      else
        case await fault 0 (deleteOne (\<lambda>p. parseInt id_param = Some (post_id p)) (posts s)) of
          Threw \<Rightarrow> (respond 500 (Error ''Server error deleting post''), s)
        | Ok (deletedCount, ps) \<Rightarrow>
            if deletedCount = 0 then
              (respond 404 (Error ''Post not found''), s\<lparr>posts := ps\<rparr>)
            else (respond 200 (Message ''Post deleted''), s\<lparr>posts := ps\<rparr>))"

text \<open>\<open>$push: { replies: reply }\<close>\<close>

definition push_reply :: "reply \<Rightarrow> post \<Rightarrow> post" where
  "push_reply r p =
     p\<lparr>post_replies := Some (case post_replies p of None \<Rightarrow> [r] | Some rs \<Rightarrow> rs @ [r])\<rparr>"

text \<open>\<open>$pull: { replies: { id: n } }\<close>: every element with that id goes.\<close>

definition pull_reply :: "int option \<Rightarrow> post \<Rightarrow> post" where
  "pull_reply n p =
     p\<lparr>post_replies := map_option (filter (\<lambda>r. n \<noteq> Some (reply_id r))) (post_replies p)\<rparr>"

text \<open>POST /api/posts/:id/reply\<close>

definition new_reply :: "clock \<Rightarrow> body \<Rightarrow> reply" where
  "new_reply clk b =
     \<lparr>reply_id = now clk,
      reply_author = or_else (author b) (JStr (js ''Anonymous'')),
      reply_content = content b,
      reply_timestamp = isoString clk\<rparr>"

definition add_reply :: "clock \<Rightarrow> (nat \<Rightarrow> bool) \<Rightarrow> jsstring \<Rightarrow> body \<Rightarrow> store \<Rightarrow> response \<times> store" where
  "add_reply clk fault id_param b s =
     (if \<not> truthy (content b) then
        (respond 400 (Error ''Reply content is required''), s)
      else
        let r = new_reply clk b
        in case await fault 0
                  (updateOne (\<lambda>p. parseInt id_param = Some (post_id p)) (push_reply r) (posts s)) of
             Threw \<Rightarrow> (respond 500 (Error ''Server error adding reply''), s)
           | Ok (matchedCount, ps) \<Rightarrow>
               if matchedCount = 0 then
                 (respond 404 (Error ''Post not found''), s\<lparr>posts := ps\<rparr>)
               else (respond 201 (ReplyDoc r), s\<lparr>posts := ps\<rparr>))"

text \<open>DELETE /api/posts/:postId/reply/:replyId\<close>

definition delete_reply ::
  "(nat \<Rightarrow> bool) \<Rightarrow> jsstring \<Rightarrow> jsstring \<Rightarrow> body \<Rightarrow> store \<Rightarrow> response \<times> store" where
  "delete_reply fault postId replyId b s =
     (if \<not> truthy (isAdmin b) then
        (respond 403 (Error ''Only administrators can delete replies''), s)
      else
        case await fault 0
               (updateOne (\<lambda>p. parseInt postId = Some (post_id p))
                  (pull_reply (parseInt replyId)) (posts s)) of
          Threw \<Rightarrow> (respond 500 (Error ''Server error deleting reply''), s)
        | Ok (matchedCount, ps) \<Rightarrow>
            if matchedCount = 0 then
              (respond 404 (Error ''Post not found''), s\<lparr>posts := ps\<rparr>)
            else (respond 200 (Message ''Reply deleted''), s\<lparr>posts := ps\<rparr>))"

section \<open>Patch notes service\<close>

text \<open>The seeding step of \<open>connectDB\<close>; a rejected call ends the process (\<open>None\<close>).\<close>

definition seed_patch :: patch where
  "seed_patch =
     \<lparr>patch_id = 1,
      patch_version = JStr (js ''Patch 2.5.0''),
      patch_date = JStr (js ''December 15, 2024''),
      patch_text = JStr (js ''New Features\<newline>- New Gun'')\<rparr>"

definition connectDB :: "(nat \<Rightarrow> bool) \<Rightarrow> store \<Rightarrow> store option" where
  "connectDB fault s =
     (case await fault 0 () of
        Threw \<Rightarrow> None
      | Ok _ \<Rightarrow>
          (case await fault 1 (countDocuments (patches s)) of
             Threw \<Rightarrow> None
           | Ok patchCount \<Rightarrow>
               if patchCount = 0 then
                 (case await fault 2 (insertOne seed_patch (patches s)) of
                    Threw \<Rightarrow> None
                  | Ok ps \<Rightarrow> Some (s\<lparr>patches := ps\<rparr>))
               else Some s))"

text \<open>GET /api/patches\<close>

definition list_patches :: "(nat \<Rightarrow> bool) \<Rightarrow> store \<Rightarrow> response \<times> store" where
  "list_patches fault s =
     (case await fault 0 (patches s) of
        Threw \<Rightarrow> (respond 500 (Error ''Server error fetching patches''), s)
      | Ok ps \<Rightarrow> (respond 200 (PatchList ps), s))"

text \<open>POST /api/patches\<close>

definition new_patch :: "clock \<Rightarrow> body \<Rightarrow> patch" where
  "new_patch clk b =
     \<lparr>patch_id = now clk, patch_version = version b,
      patch_date = date b, patch_text = text' b\<rparr>"

definition create_patch :: "clock \<Rightarrow> (nat \<Rightarrow> bool) \<Rightarrow> body \<Rightarrow> store \<Rightarrow> response \<times> store" where
  "create_patch clk fault b s =
     (if \<not> truthy (isAdmin b) then
        (respond 403 (Error ''Only administrators can create patches''), s)
      else if \<not> truthy (version b) \<or> \<not> truthy (date b) \<or> \<not> truthy (text' b) then
        (respond 400 (Error ''All fields are required''), s)
      else
        let p = new_patch clk b
        in case await fault 0 (insertOne p (patches s)) of
             Threw \<Rightarrow> (respond 500 (Error ''Server error creating patch''), s)
           | Ok ps \<Rightarrow> (respond 201 (PatchDoc p), s\<lparr>patches := ps\<rparr>))"

text \<open>
  \<open>updateFields\<close> and \<open>$set: updateFields\<close>: a field is written only when the
  body supplies a truthy value for it.  An empty \<open>$set\<close> changes nothing.
\<close>

record updateFields =
  uf_version :: "jsval option"
  uf_date :: "jsval option"
  uf_text :: "jsval option"

definition build_updateFields :: "body \<Rightarrow> updateFields" where
  "build_updateFields b =
     \<lparr>uf_version = (if truthy (version b) then Some (version b) else None),
      uf_date = (if truthy (date b) then Some (date b) else None),
      uf_text = (if truthy (text' b) then Some (text' b) else None)\<rparr>"

definition set_fields :: "updateFields \<Rightarrow> patch \<Rightarrow> patch" where
  "set_fields uf p =
     p\<lparr>patch_version := (case uf_version uf of None \<Rightarrow> patch_version p | Some v \<Rightarrow> v),
       patch_date := (case uf_date uf of None \<Rightarrow> patch_date p | Some v \<Rightarrow> v),
       patch_text := (case uf_text uf of None \<Rightarrow> patch_text p | Some v \<Rightarrow> v)\<rparr>"

text \<open>PUT /api/patches/:id\<close>

definition update_patch :: "(nat \<Rightarrow> bool) \<Rightarrow> jsstring \<Rightarrow> body \<Rightarrow> store \<Rightarrow> response \<times> store" where
  "update_patch fault id_param b s =
     (if \<not> truthy (isAdmin b) then
        (respond 403 (Error ''Only administrators can edit patches''), s)
      else
        let uf = build_updateFields b
        in case await fault 0
                  (findOneAndUpdate (\<lambda>p. parseInt id_param = Some (patch_id p))
                     (set_fields uf) (patches s)) of
             Threw \<Rightarrow> (respond 500 (Error ''Server error updating patch''), s)
           | Ok (None, ps) \<Rightarrow> (respond 404 (Error ''Patch not found''), s\<lparr>patches := ps\<rparr>)
           | Ok (Some p, ps) \<Rightarrow> (respond 200 (PatchDoc p), s\<lparr>patches := ps\<rparr>))"

text \<open>DELETE /api/patches/:id\<close>

definition delete_patch :: "(nat \<Rightarrow> bool) \<Rightarrow> jsstring \<Rightarrow> body \<Rightarrow> store \<Rightarrow> response \<times> store" where
  "delete_patch fault id_param b s =
     (if \<not> truthy (isAdmin b) then
        (respond 403 (Error ''Only administrators can delete patches''), s)
      else
        case await fault 0 (deleteOne (\<lambda>p. parseInt id_param = Some (patch_id p)) (patches s)) of
          Threw \<Rightarrow> (respond 500 (Error ''Server error deleting patch''), s)
        | Ok (deletedCount, ps) \<Rightarrow>
            if deletedCount = 0 then
              (respond 404 (Error ''Patch not found''), s\<lparr>patches := ps\<rparr>)
            else (respond 200 (Message ''Patch deleted''), s\<lparr>patches := ps\<rparr>))"

section \<open>Credential codec\<close>

text \<open>
  \<open>Buffer.from(pwd).toString('base64')\<close> and
  \<open>Buffer.from(encoded, 'base64').toString('utf-8')\<close>.  A Buffer is a sequence of
  bytes.  The arithmetic is done on the numeric values of code units and bytes.
\<close>

type_synonym buffer = "8 word list"

subsection \<open>UTF-8\<close>

definition is_high :: "nat \<Rightarrow> bool" where
  "is_high u \<longleftrightarrow> 0xD800 \<le> u \<and> u \<le> 0xDBFF"

definition is_low :: "nat \<Rightarrow> bool" where
  "is_low u \<longleftrightarrow> 0xDC00 \<le> u \<and> u \<le> 0xDFFF"

text \<open>
  The code points of a string as the encoder reads them: a high surrogate
  followed by a low one is one supplementary code point; any other surrogate is
  replaced by U+FFFD.
\<close>

definition unit_point :: "nat \<Rightarrow> nat" where
  "unit_point u = (if is_high u \<or> is_low u then 0xFFFD else u)"

definition pair_point :: "nat \<Rightarrow> nat \<Rightarrow> nat" where
  "pair_point u v = 0x10000 + (u - 0xD800) * 0x400 + (v - 0xDC00)"

fun code_points :: "nat list \<Rightarrow> nat list" where
  "code_points [] = []"
| "code_points [u] = [unit_point u]"
| "code_points (u # v # us) =
     (if is_high u \<and> is_low v then pair_point u v # code_points us
      else unit_point u # code_points (v # us))"

definition utf8_bytes :: "nat \<Rightarrow> nat list" where
  "utf8_bytes c =
     (if c < 0x80 then [c]
      else if c < 0x800 then [0xC0 + c div 64, 0x80 + c mod 64]
      else if c < 0x10000 then [0xE0 + c div 4096, 0x80 + c div 64 mod 64, 0x80 + c mod 64]
      else [0xF0 + c div 262144, 0x80 + c div 4096 mod 64, 0x80 + c div 64 mod 64,
            0x80 + c mod 64])"

text \<open>\<open>Buffer.from(s)\<close>\<close>

definition utf8_encode :: "jsstring \<Rightarrow> buffer" where
  "utf8_encode s = map of_nat (concat (map utf8_bytes (code_points (map unat s))))"

text \<open>
  The decoder: a lead byte announces how many continuation bytes follow and the
  range allowed for the next one; a byte that does not fit ends the sequence
  with U+FFFD and is read again as a lead byte.
\<close>

datatype lead = Single nat | Multi nat nat nat nat | Invalid

definition lead_byte :: "nat \<Rightarrow> lead" where
  "lead_byte b =
     (if b < 0x80 then Single b
      else if 0xC2 \<le> b \<and> b \<le> 0xDF then Multi (b mod 32) 1 0x80 0xBF
      else if 0xE0 \<le> b \<and> b \<le> 0xEF then
        Multi (b mod 16) 2 (if b = 0xE0 then 0xA0 else 0x80) (if b = 0xED then 0x9F else 0xBF)
      else if 0xF0 \<le> b \<and> b \<le> 0xF4 then
        Multi (b mod 8) 3 (if b = 0xF0 then 0x90 else 0x80) (if b = 0xF4 then 0x8F else 0xBF)
      else Invalid)"

fun utf8_dec :: "nat \<Rightarrow> nat \<Rightarrow> nat \<Rightarrow> nat \<Rightarrow> nat list \<Rightarrow> nat list" where
  "utf8_dec cp needed lo hi [] = (if needed = 0 then [] else [0xFFFD])"
| "utf8_dec cp needed lo hi (b # bs) =
     (if needed \<noteq> 0 \<and> lo \<le> b \<and> b \<le> hi then
        (if needed = 1 then (cp * 64 + b mod 64) # utf8_dec 0 0 0x80 0xBF bs
         else utf8_dec (cp * 64 + b mod 64) (needed - 1) 0x80 0xBF bs)
      else
        (if needed \<noteq> 0 then [0xFFFD] else []) @
        (case lead_byte b of
           Single c \<Rightarrow> c # utf8_dec 0 0 0x80 0xBF bs
         | Multi cp' n' lo' hi' \<Rightarrow> utf8_dec cp' n' lo' hi' bs
         | Invalid \<Rightarrow> 0xFFFD # utf8_dec 0 0 0x80 0xBF bs))"

definition utf16_units :: "nat \<Rightarrow> nat list" where
  "utf16_units c =
     (if c < 0x10000 then [c]
      else [0xD800 + (c - 0x10000) div 0x400, 0xDC00 + (c - 0x10000) mod 0x400])"

text \<open>\<open>buf.toString('utf-8')\<close>\<close>

definition utf8_decode :: "buffer \<Rightarrow> jsstring" where
  "utf8_decode bs =
     map of_nat (concat (map utf16_units (utf8_dec 0 0 0x80 0xBF (map unat bs))))"

subsection \<open>base64\<close>

definition b64_char :: "nat \<Rightarrow> nat" where
  "b64_char n =
     (if n < 26 then 65 + n
      else if n < 52 then 71 + n
      else if n < 62 then n - 4
      else if n = 62 then 43
      else 47)"

fun b64_groups :: "nat list \<Rightarrow> nat list" where
  "b64_groups [] = []"
| "b64_groups [a] = [b64_char (a div 4), b64_char (a mod 4 * 16), 61, 61]"
| "b64_groups [a, b] =
     [b64_char (a div 4), b64_char (a mod 4 * 16 + b div 16), b64_char (b mod 16 * 4), 61]"
| "b64_groups (a # b # c # bs) =
     [b64_char (a div 4), b64_char (a mod 4 * 16 + b div 16),
      b64_char (b mod 16 * 4 + c div 64), b64_char (c mod 64)] @ b64_groups bs"

text \<open>\<open>buf.toString('base64')\<close>\<close>

definition base64_encode :: "buffer \<Rightarrow> jsstring" where
  "base64_encode bs = map of_nat (b64_groups (map unat bs))"

text \<open>
  Decoding is lenient, as Node documents it: the standard and the URL-safe
  alphabet are accepted, any other code unit is skipped, \<open>=\<close> ends the input,
  and an incomplete last group yields the bytes it determines.
\<close>

definition unbase64 :: "nat \<Rightarrow> nat option" where
  "unbase64 n =
     (if 65 \<le> n \<and> n \<le> 90 then Some (n - 65)
      else if 97 \<le> n \<and> n \<le> 122 then Some (n - 71)
      else if 48 \<le> n \<and> n \<le> 57 then Some (n + 4)
      else if n = 43 \<or> n = 45 then Some 62
      else if n = 47 \<or> n = 95 then Some 63
      else None)"

fun b64_sextets :: "nat list \<Rightarrow> nat list" where
  "b64_sextets [] = []"
| "b64_sextets (c # cs) =
     (if c = 61 then []
      else case unbase64 c of None \<Rightarrow> b64_sextets cs | Some v \<Rightarrow> v # b64_sextets cs)"

fun b64_bytes :: "nat list \<Rightarrow> nat list" where
  "b64_bytes (s1 # s2 # s3 # s4 # ss) =
     [s1 * 4 + s2 div 16, s2 mod 16 * 16 + s3 div 4, s3 mod 4 * 64 + s4] @ b64_bytes ss"
| "b64_bytes [s1, s2, s3] = [s1 * 4 + s2 div 16, s2 mod 16 * 16 + s3 div 4]"
| "b64_bytes [s1, s2] = [s1 * 4 + s2 div 16]"
| "b64_bytes ss = []"

text \<open>\<open>Buffer.from(s, 'base64')\<close>\<close>

definition base64_decode :: "jsstring \<Rightarrow> buffer" where
  "base64_decode s = map of_nat (b64_bytes (b64_sextets (map unat s)))"

subsection \<open>encodePassword and decodePassword\<close>

definition encodePassword :: "jsstring \<Rightarrow> jsstring" where
  "encodePassword pwd = base64_encode (utf8_encode pwd)"

definition decodePassword :: "jsstring \<Rightarrow> jsstring" where
  "decodePassword encoded = utf8_decode (base64_decode encoded)"

text \<open>
  \<open>s.isWellFormed()\<close>: no surrogate code unit stands alone.
\<close>

fun wf_units :: "nat list \<Rightarrow> bool" where
  "wf_units [] = True"
| "wf_units [u] = (\<not> is_high u \<and> \<not> is_low u)"
| "wf_units (u # v # us) =
     (if is_high u then is_low v \<and> wf_units us
      else \<not> is_low u \<and> wf_units (v # us))"

definition well_formed :: "jsstring \<Rightarrow> bool" where
  "well_formed s = wf_units (map unat s)"

text \<open>\<open>s.toWellFormed()\<close>: every lone surrogate becomes U+FFFD.\<close>

definition toWellFormed :: "jsstring \<Rightarrow> jsstring" where
  "toWellFormed s = map of_nat (concat (map utf16_units (code_points (map unat s))))"

text \<open>A Unicode scalar value.\<close>

definition scalar :: "nat \<Rightarrow> bool" where
  "scalar c \<longleftrightarrow> c < 0x110000 \<and> \<not> (0xD800 \<le> c \<and> c \<le> 0xDFFF)"

section \<open>Regular expressions\<close>

text \<open>
  The fragment of regular expressions that the source's pattern and its
  derivatives need: a character class is a predicate on code units.
\<close>

datatype regex =
    Zero
  | Eps
  | Atom "16 word \<Rightarrow> bool"
  | Alt regex regex
  | Seq regex regex
  | Star regex

text \<open>\<open>r+\<close>\<close>

definition Plus1 :: "regex \<Rightarrow> regex" where
  "Plus1 r = Seq r (Star r)"

fun nullable :: "regex \<Rightarrow> bool" where
  "nullable Zero = False"
| "nullable Eps = True"
| "nullable (Atom p) = False"
| "nullable (Alt r s) = (nullable r \<or> nullable s)"
| "nullable (Seq r s) = (nullable r \<and> nullable s)"
| "nullable (Star r) = True"

fun deriv :: "16 word \<Rightarrow> regex \<Rightarrow> regex" where
  "deriv c Zero = Zero"
| "deriv c Eps = Zero"
| "deriv c (Atom p) = (if p c then Eps else Zero)"
| "deriv c (Alt r s) = Alt (deriv c r) (deriv c s)"
| "deriv c (Seq r s) =
     (if nullable r then Alt (Seq (deriv c r) s) (deriv c s) else Seq (deriv c r) s)"
| "deriv c (Star r) = Seq (deriv c r) (Star r)"

text \<open>
  \<open>/^r$/.test(s)\<close>: with both anchors and no flags the test succeeds exactly
  when the whole of \<open>s\<close> matches \<open>r\<close>.
\<close>

fun regex_test :: "regex \<Rightarrow> jsstring \<Rightarrow> bool" where
  "regex_test r [] = nullable r"
| "regex_test r (c # cs) = regex_test (deriv c r) cs"

text \<open>\<open>[^\s@]\<close>\<close>

definition not_space_or_at :: "16 word \<Rightarrow> bool" where
  "not_space_or_at c \<longleftrightarrow> \<not> is_space c \<and> c \<noteq> 0x40"

text \<open>\<open>/^[^\s@]+@[^\s@]+\.[^\s@]+$/\<close>\<close>

definition email_regex :: regex where
  "email_regex =
     Seq (Plus1 (Atom not_space_or_at))
       (Seq (Atom (\<lambda>c. c = 0x40))
          (Seq (Plus1 (Atom not_space_or_at))
             (Seq (Atom (\<lambda>c. c = 0x2E))
                (Plus1 (Atom not_space_or_at)))))"




section \<open>Authentication service\<close>

text \<open>
  The fields the login handler destructures from \<open>req.body\<close>.  Each is a string
  or absent (\<open>None\<close>, JavaScript's \<open>undefined\<close>), as the data model has them;
  login bodies that carry other JSON types in these fields are outside the model.
\<close>

record auth_body =
  username :: "jsstring option"
  email :: "jsstring option"
  password :: "jsstring option"
  confirm :: "jsstring option"

text \<open>\<open>!x\<close> is false: the field is there and is not the empty string.\<close>

definition present :: "jsstring option \<Rightarrow> bool" where
  "present x = (case x of None \<Rightarrow> False | Some s \<Rightarrow> s \<noteq> [])"

text \<open>The string in a field; it is read only after \<open>present\<close> has been checked.\<close>

definition str :: "jsstring option \<Rightarrow> jsstring" where
  "str x = (case x of None \<Rightarrow> [] | Some s \<Rightarrow> s)"

definition ADMIN :: user where
  "ADMIN =
     \<lparr>user_username = FStr (js ''Admin''),
      user_email = js ''admin@gmail.com'',
      user_password = encodePassword (js ''access''),
      user_isAdmin = True\<rparr>"

subsection \<open>Registration\<close>

text \<open>
  The fields the registration handler destructures from \<open>req.body\<close>; the handler
  checks no types, so each is any JSON scalar or absent.
\<close>

record register_body =
  username' :: field
  email' :: field
  password' :: field
  confirm' :: field

text \<open>
  \<open>pattern.test(email)\<close> tests the string of \<open>email\<close>.  The string of a number
  or of a boolean has no \<open>@\<close>, so the pattern does not match it.
\<close>

definition email_test :: "field \<Rightarrow> bool" where
  "email_test v = (case v of FStr s \<Rightarrow> regex_test email_regex s | _ \<Rightarrow> False)"

text \<open>
  \<open>encodePassword(password)\<close>: \<open>Buffer.from\<close> throws a TypeError (\<open>None\<close>) on a
  number or a boolean.
\<close>

definition encode_field :: "field \<Rightarrow> jsstring option" where
  "encode_field v = (case v of FStr s \<Rightarrow> Some (encodePassword s) | _ \<Rightarrow> None)"

text \<open>
  The driver writes the new user and the query of the uniqueness check to the
  store as BSON, in which a string is UTF-8: what the store holds and compares,
  and what is read back, is the string with every lone surrogate replaced by
  U+FFFD.  \<open>undefined\<close> is written as \<open>null\<close>.
\<close>

definition bson_string :: "jsstring \<Rightarrow> jsstring" where
  "bson_string s = utf8_decode (utf8_encode s)"

definition bson_field :: "field \<Rightarrow> field" where
  "bson_field v =
     (case v of FStr s \<Rightarrow> FStr (bson_string s) | Absent \<Rightarrow> FNull | _ \<Rightarrow> v)"

text \<open>
  The stored form of the email of a new user.  The email has passed the pattern
  by then, so it is a string.
\<close>

definition stored_email :: "field \<Rightarrow> jsstring" where
  "stored_email v = (case v of FStr s \<Rightarrow> bson_string s | _ \<Rightarrow> [])"

text \<open>POST /api/auth/register\<close>

definition register :: "(nat \<Rightarrow> bool) \<Rightarrow> register_body \<Rightarrow> store \<Rightarrow> response \<times> store" where
  "register fault b s =
     (if \<not> truthy_field (username' b) \<or> \<not> truthy_field (email' b)
         \<or> \<not> truthy_field (password' b) \<or> \<not> truthy_field (confirm' b) then
        (respond 400 (Error ''Please fill in all fields''), s)
      else if length_less (username' b) 3 then
        (respond 400 (Error ''Username must be at least 3 characters long''), s)
      else if \<not> email_test (email' b) then
        (respond 400 (Error ''Please enter a valid email address''), s)
      else if password' b \<noteq> confirm' b then
        (respond 400 (Error ''Passwords do not match''), s)
      else if length_less (password' b) 6 then
        (respond 400 (Error ''Password must be at least 6 characters long''), s)
      else
        case await fault 0
               (findOne (\<lambda>u. FStr (user_email u) = bson_field (email' b)
                            \<or> user_username u = bson_field (username' b))
                  (users s)) of
          Threw \<Rightarrow> (respond 500 (Error ''Server error during registration''), s)
        | Ok (Some existingUser) \<Rightarrow>
            (respond 400 (Error ''This email or username is already registered''), s)
        | Ok None \<Rightarrow>
            (case encode_field (password' b) of
               None \<Rightarrow> (respond 500 (Error ''Server error during registration''), s)
             | Some encoded \<Rightarrow>
                 let newUser = \<lparr>user_username = bson_field (username' b),
                                 user_email = stored_email (email' b),
                                 user_password = encoded,
                                 user_isAdmin = False\<rparr>
                 in case await fault 1 (insertOne newUser (users s)) of
                      Threw \<Rightarrow> (respond 500 (Error ''Server error during registration''), s)
                    | Ok us \<Rightarrow>
                        (respond 201
                           (Registered ''Registration successful!'' (username' b) (email' b)),
                         s\<lparr>users := us\<rparr>)))"

subsection \<open>Login\<close>

text \<open>POST /api/auth/login\<close>

definition login :: "(nat \<Rightarrow> bool) \<Rightarrow> auth_body \<Rightarrow> store \<Rightarrow> response \<times> store" where
  "login fault b s =
     (if \<not> present (email b) \<or> \<not> present (password b) then
        (respond 400 (Error ''Please fill in all fields''), s)
      else if str (email b) = user_email ADMIN
              \<and> encodePassword (str (password b)) = user_password ADMIN then
        (respond 200
           (LoggedIn ''Admin login successful!'' (user_username ADMIN) (user_email ADMIN) True), s)
      else
        case await fault 0 (findOne (\<lambda>u. user_email u = str (email b)) (users s)) of
          Threw \<Rightarrow> (respond 500 (Error ''Server error during login''), s)
        | Ok user \<Rightarrow>
            (case user of
               Some u \<Rightarrow>
                 if decodePassword (user_password u) = str (password b) then
                   (respond 200
                      (LoggedIn ''Login successful!'' (user_username u) (user_email u)
                         (user_isAdmin u)), s)
                 else (respond 401 (Error ''Invalid email or password''), s)
             | None \<Rightarrow> (respond 401 (Error ''Invalid email or password''), s)))"

section \<open>Routes\<close>

text \<open>
  The requests that reach the store, by method and path.  (GET /api/agents and
  the static files do not touch it.)
\<close>

datatype request =
    GetPosts
  | PostPost body
  | DeletePost jsstring body
  | PostReply jsstring body
  | DeleteReply jsstring jsstring body
  | GetPatches
  | PostPatch body
  | PutPatch jsstring body
  | DeletePatch jsstring body
  | PostRegister register_body
  | PostLogin auth_body

fun handle :: "clock \<Rightarrow> (nat \<Rightarrow> bool) \<Rightarrow> request \<Rightarrow> store \<Rightarrow> response \<times> store" where
  "handle clk fault GetPosts s = list_posts fault s"
| "handle clk fault (PostPost b) s = create_post clk fault b s"
| "handle clk fault (DeletePost i b) s = delete_post fault i b s"
| "handle clk fault (PostReply i b) s = add_reply clk fault i b s"
| "handle clk fault (DeleteReply i j b) s = delete_reply fault i j b s"
| "handle clk fault GetPatches s = list_patches fault s"
| "handle clk fault (PostPatch b) s = create_patch clk fault b s"
| "handle clk fault (PutPatch i b) s = update_patch fault i b s"
| "handle clk fault (DeletePatch i b) s = delete_patch fault i b s"
| "handle clk fault (PostRegister b) s = register fault b s"
| "handle clk fault (PostLogin b) s = login fault b s"

section \<open>Sample inputs\<close>

text \<open>The run in which no store call rejects.\<close>

definition no_fault :: "nat \<Rightarrow> bool" where
  "no_fault k = False"

definition empty_store :: store where
  "empty_store = \<lparr>users = [], posts = [], patches = []\<rparr>"

text \<open>The body \<open>{}\<close>.\<close>

definition empty_body :: body where
  "empty_body =
     \<lparr>author = Undefined, content = Undefined, image' = Undefined,
      version = Undefined, date = Undefined, text' = Undefined, isAdmin = Undefined\<rparr>"

definition sample_clock :: clock where
  "sample_clock = \<lparr>now = 1700000000000, isoString = js ''2023-11-14T22:13:20.000Z''\<rparr>"

definition admin_body :: body where
  "admin_body = empty_body\<lparr>isAdmin := JBool True\<rparr>"

definition hello_body :: body where
  "hello_body = empty_body\<lparr>content := JStr (js ''hello'')\<rparr>"

definition sample_patch :: patch where
  "sample_patch =
     \<lparr>patch_id = 7, patch_version = JStr (js ''1.0''), patch_date = JStr (js ''d''),
      patch_text = JStr (js ''t'')\<rparr>"

definition sample_reply :: reply where
  "sample_reply =
     \<lparr>reply_id = 5, reply_author = JStr (js ''bob''), reply_content = JStr (js ''hi''),
      reply_timestamp = js ''2023-11-14T22:13:21.000Z''\<rparr>"

definition sample_post :: post where
  "sample_post =
     \<lparr>post_id = 42, post_author = JStr (js ''ann''), post_content = JStr (js ''hello''),
      post_image = Null, post_timestamp = js ''2023-11-14T22:13:20.000Z'',
      post_replies = Some [sample_reply]\<rparr>"

definition sample_user :: user where
  "sample_user =
     \<lparr>user_username = FStr (js ''ann''), user_email = js ''ann@example.com'',
      user_password = encodePassword (js ''secret1''), user_isAdmin = False\<rparr>"

definition ann_body :: register_body where
  "ann_body =
     \<lparr>username' = FStr (js ''ann''), email' = FStr (js ''ann@example.com''),
      password' = FStr (js ''secret1''), confirm' = FStr (js ''secret1'')\<rparr>"

definition admin_login :: "jsstring \<Rightarrow> auth_body" where
  "admin_login p =
     \<lparr>username = None, email = Some (js ''admin@gmail.com''), password = Some p,
      confirm = None\<rparr>"


section \<open>Properties of the collection operations\<close>

lemma updateOne_count: "fst (updateOne f u c) = (if \<exists>d \<in> set c. f d then 1 else 0)"
  by (induction c) (auto split: prod.splits)

lemma findOneAndUpdate_eq:
  "findOneAndUpdate f u c =
     (case find f c of
        None \<Rightarrow> (None, c)
      | Some d \<Rightarrow>
          (Some (u d), takeWhile (\<lambda>d. \<not> f d) c @ u d # tl (dropWhile (\<lambda>d. \<not> f d) c)))"
  by (induction c) (auto split: prod.splits option.splits)

lemma first_match_split:
  "find f c = Some d \<Longrightarrow> takeWhile (\<lambda>d. \<not> f d) c @ d # tl (dropWhile (\<lambda>d. \<not> f d) c) = c"
  by (induction c) (auto split: if_splits)

lemma updateOne_eq:
  "updateOne f u c =
     (case find f c of
        None \<Rightarrow> (0, c)
      | Some d \<Rightarrow> (1, takeWhile (\<lambda>d. \<not> f d) c @ u d # tl (dropWhile (\<lambda>d. \<not> f d) c)))"
  by (induction c) (auto split: prod.splits option.splits)

lemma deleteOne_eq:
  "deleteOne f c =
     (case find f c of
        None \<Rightarrow> (0, c)
      | Some d \<Rightarrow> (1, takeWhile (\<lambda>d. \<not> f d) c @ tl (dropWhile (\<lambda>d. \<not> f d) c)))"
  by (induction c) (auto split: prod.splits option.splits)

lemma pull_reply_absent:
  "\<forall>r \<in> set (case post_replies p of None \<Rightarrow> [] | Some rs \<Rightarrow> rs). n \<noteq> Some (reply_id r)
   \<Longrightarrow> pull_reply n p = p"
  by (cases "post_replies p") (auto simp: pull_reply_def filter_id_conv)

lemma find_after_delete:
  "length (filter f c) = 1 \<Longrightarrow>
   find f (takeWhile (\<lambda>d. \<not> f d) c @ tl (dropWhile (\<lambda>d. \<not> f d) c)) = None"
  by (induction c) (auto simp: find_None_iff filter_empty_conv split: if_splits)

section \<open>The base64 round trip\<close>

lemma unbase64_b64_char: "n < 64 \<Longrightarrow> unbase64 (b64_char n) = Some n"
  unfolding b64_char_def unbase64_def
  by (simp; arith)

lemma b64_char_not_pad: "n < 64 \<Longrightarrow> b64_char n \<noteq> 61"
  unfolding b64_char_def by (simp; arith)

lemma b64_char_bound: "n < 64 \<Longrightarrow> b64_char n < 128"
  unfolding b64_char_def by (simp; arith)

lemma sextet_bound1: "(a::nat) < 256 \<Longrightarrow> a div 4 < 64"
  by arith

lemma sextet_bound2: "(b::nat) < 256 \<Longrightarrow> a mod 4 * 16 + b div 16 < 64"
  by arith

lemma sextet_bound3: "(c::nat) < 256 \<Longrightarrow> b mod 16 * 4 + c div 64 < 64"
  by arith

lemma sextet_bound2': "(a::nat) mod 4 * 16 < 64"
  by arith

lemma sextet_bound3': "(b::nat) mod 16 * 4 < 64"
  by arith

lemma sextets_char:
  "n < 64 \<Longrightarrow> b64_sextets (b64_char n # cs) = n # b64_sextets cs"
  by (simp add: unbase64_b64_char b64_char_not_pad)

lemma byte_div16: "(b::nat) < 256 \<Longrightarrow> b div 16 < 16"
  by arith

lemma byte_div64: "(c::nat) < 256 \<Longrightarrow> c div 64 < 4"
  by arith

lemma sextets_pad: "b64_sextets (61 # cs) = []"
  by simp

lemma b64_roundtrip:
  "\<forall>b \<in> set bs. b < 256 \<Longrightarrow> b64_bytes (b64_sextets (b64_groups bs)) = bs"
proof (induction bs rule: b64_groups.induct)
  case 1
  then show ?case by simp
next
  case (2 a)
  then show ?case
    by (simp add: sextets_char sextets_pad sextet_bound1 sextet_bound2 sextet_bound3
        sextet_bound2' sextet_bound3' byte_div16 byte_div64 del: b64_sextets.simps(2))
next
  case (3 a b)
  then show ?case
    by (simp add: sextets_char sextets_pad sextet_bound1 sextet_bound2 sextet_bound3
        sextet_bound2' sextet_bound3' byte_div16 byte_div64 del: b64_sextets.simps(2))
next
  case (4 a b c bs)
  then show ?case
    by (simp add: sextets_char sextets_pad sextet_bound1 sextet_bound2 sextet_bound3
        sextet_bound2' sextet_bound3' byte_div16 byte_div64 del: b64_sextets.simps(2))
qed

lemma b64_groups_bound:
  "\<forall>b \<in> set bs. b < 256 \<Longrightarrow> \<forall>c \<in> set (b64_groups bs). c < 128"
  by (induction bs rule: b64_groups.induct)
    (simp_all add: b64_char_bound sextet_bound1 sextet_bound2 sextet_bound3 sextet_bound2'
      sextet_bound3')

section \<open>The UTF-8 round trip\<close>

lemma lead_mod:
  fixes h :: nat
  shows "h < 32 \<Longrightarrow> (192 + h) mod 32 = h"
    and "h < 16 \<Longrightarrow> (224 + h) mod 16 = h"
    and "h < 8 \<Longrightarrow> (240 + h) mod 8 = h"
    and "h < 64 \<Longrightarrow> (128 + h) mod 64 = h"
  by (rule mod_nat_eqI; simp)+

lemma two_byte:
  assumes "2 \<le> h" "h < 32" "l < 64"
  shows "utf8_dec 0 0 128 191 ((192 + h) # (128 + l) # bs)
         = (h * 64 + l) # utf8_dec 0 0 128 191 bs"
  using assms by (simp add: lead_byte_def lead_mod)

lemma three_byte:
  assumes "h < 16" "m < 64" "l < 64" "h = 0 \<longrightarrow> 32 \<le> m" "h = 13 \<longrightarrow> m < 32"
  shows "utf8_dec 0 0 128 191 ((224 + h) # (128 + m) # (128 + l) # bs)
         = (h * 4096 + m * 64 + l) # utf8_dec 0 0 128 191 bs"
  using assms by (auto simp: lead_byte_def lead_mod)

lemma four_byte:
  assumes "h < 5" "m < 64" "n < 64" "l < 64" "h = 0 \<longrightarrow> 16 \<le> m" "h = 4 \<longrightarrow> m < 16"
  shows "utf8_dec 0 0 128 191 ((240 + h) # (128 + m) # (128 + n) # (128 + l) # bs)
         = (h * 262144 + m * 4096 + n * 64 + l) # utf8_dec 0 0 128 191 bs"
  using assms by (auto simp: lead_byte_def lead_mod)


lemma div_4096: "(c::nat) div 4096 = c div 64 div 64"
  by (simp add: div_mult2_eq [symmetric])

lemma div_262144: "(c::nat) div 262144 = c div 64 div 64 div 64"
  by (simp add: div_mult2_eq [symmetric])

lemma utf8_dec_bytes:
  assumes "scalar c"
  shows "utf8_dec 0 0 128 191 (utf8_bytes c @ bs) = c # utf8_dec 0 0 128 191 bs"
proof -
  define q where "q = c div 64"
  define l where "l = c mod 64"
  define p where "p = q div 64"
  define n where "n = q mod 64"
  define h where "h = p div 64"
  define m where "m = p mod 64"
  have c: "c = q * 64 + l" and l: "l < 64" by (simp_all add: q_def l_def)
  have q: "q = p * 64 + n" and n: "n < 64" by (simp_all add: p_def n_def)
  have p: "p = h * 64 + m" and m: "m < 64" by (simp_all add: h_def m_def)
  from assms have r: "c < 1114112" and s: "c < 55296 \<or> 57343 < c"
    by (auto simp: scalar_def)
  consider "c < 128" | "128 \<le> c" "c < 2048" | "2048 \<le> c" "c < 65536" | "65536 \<le> c"
    by linarith
  then show ?thesis
  proof cases
    case 1
    then show ?thesis by (simp add: utf8_bytes_def lead_byte_def)
  next
    case 2
    have "2 \<le> q" "q < 32" using 2 c l by linarith+
    then have "utf8_dec 0 0 128 191 ((192 + q) # (128 + l) # bs)
        = (q * 64 + l) # utf8_dec 0 0 128 191 bs"
      using l by (rule two_byte)
    with 2 show ?thesis
      by (simp add: utf8_bytes_def c [symmetric] q_def [symmetric] l_def [symmetric])
  next
    case 3
    have "p < 16" "p = 0 \<longrightarrow> 32 \<le> n" "p = 13 \<longrightarrow> n < 32"
      using 3 s c l q n by linarith+
    then have "utf8_dec 0 0 128 191 ((224 + p) # (128 + n) # (128 + l) # bs)
        = (p * 4096 + n * 64 + l) # utf8_dec 0 0 128 191 bs"
      using n l by (intro three_byte)
    moreover have "p * 4096 + n * 64 + l = c" using c q by simp
    ultimately show ?thesis using 3
      by (simp add: utf8_bytes_def div_4096 q_def [symmetric] l_def [symmetric]
          p_def [symmetric] n_def [symmetric])
  next
    case 4
    have "h < 5" "h = 0 \<longrightarrow> 16 \<le> m" "h = 4 \<longrightarrow> m < 16"
      using 4 r c l q n p m by linarith+
    then have "utf8_dec 0 0 128 191 ((240 + h) # (128 + m) # (128 + n) # (128 + l) # bs)
        = (h * 262144 + m * 4096 + n * 64 + l) # utf8_dec 0 0 128 191 bs"
      using m n l by (intro four_byte)
    moreover have "h * 262144 + m * 4096 + n * 64 + l = c" using c q p by simp
    ultimately show ?thesis using 4
      by (simp add: utf8_bytes_def div_4096 div_262144 q_def [symmetric] l_def [symmetric]
          p_def [symmetric] n_def [symmetric] h_def [symmetric] m_def [symmetric])
  qed
qed

lemma utf8_bytes_bound:
  assumes "scalar c"
  shows "\<forall>b \<in> set (utf8_bytes c). b < 256"
proof -
  define q where "q = c div 64"
  define l where "l = c mod 64"
  define p where "p = q div 64"
  define n where "n = q mod 64"
  define h where "h = p div 64"
  define m where "m = p mod 64"
  have c: "c = q * 64 + l" and l: "l < 64" by (simp_all add: q_def l_def)
  have q: "q = p * 64 + n" and n: "n < 64" by (simp_all add: p_def n_def)
  have p: "p = h * 64 + m" and m: "m < 64" by (simp_all add: h_def m_def)
  from assms have r: "c < 1114112" by (simp add: scalar_def)
  have "c < 2048 \<longrightarrow> q < 32" "c < 65536 \<longrightarrow> p < 16" "h < 5"
    using r c l q n p m by linarith+
  then show ?thesis
    using l n m
    by (auto simp: utf8_bytes_def div_4096 div_262144 q_def [symmetric] l_def [symmetric]
        p_def [symmetric] n_def [symmetric] h_def [symmetric] m_def [symmetric])
qed

lemma unit_point_scalar: "u < 65536 \<Longrightarrow> scalar (unit_point u)"
  by (auto simp: unit_point_def scalar_def is_high_def is_low_def)

lemma pair_point_scalar: "is_high u \<Longrightarrow> is_low v \<Longrightarrow> scalar (pair_point u v)"
  unfolding pair_point_def scalar_def is_high_def is_low_def by linarith

lemma code_points_scalar:
  "\<forall>u \<in> set us. u < 65536 \<Longrightarrow> \<forall>c \<in> set (code_points us). scalar c"
  by (induction us rule: code_points.induct)
    (simp_all add: unit_point_scalar pair_point_scalar)

lemma utf8_dec_concat:
  "\<forall>c \<in> set cs. scalar c \<Longrightarrow> utf8_dec 0 0 128 191 (concat (map utf8_bytes cs)) = cs"
  by (induction cs) (simp_all add: utf8_dec_bytes)

lemma concat_utf8_bound:
  "\<forall>c \<in> set cs. scalar c \<Longrightarrow> \<forall>b \<in> set (concat (map utf8_bytes cs)). b < 256"
  using utf8_bytes_bound by auto

lemma utf16_unit_point: "\<not> is_high u \<Longrightarrow> \<not> is_low u \<Longrightarrow> u < 65536 \<Longrightarrow> utf16_units (unit_point u) = [u]"
  by (simp add: utf16_units_def unit_point_def)

lemma utf16_pair_point:
  assumes "is_high u" and "is_low v"
  shows "utf16_units (pair_point u v) = [u, v]"
proof -
  define a where "a = u - 55296"
  define b where "b = v - 56320"
  have u: "u = 55296 + a" and v: "v = 56320 + b" and b: "b < 1024"
    using assms by (auto simp: a_def b_def is_high_def is_low_def)
  have pp: "pair_point u v = 65536 + (a * 1024 + b)"
    by (simp add: pair_point_def a_def b_def)
  have "utf16_units (pair_point u v) = [55296 + a, 56320 + b]"
    using b by (simp add: pp utf16_units_def)
  then show ?thesis
    by (simp add: u [symmetric] v [symmetric])
qed


lemma toWellFormed_wf:
  "wf_units us \<Longrightarrow> \<forall>u \<in> set us. u < 65536 \<Longrightarrow>
   concat (map utf16_units (code_points us)) = us"
  by (induction us rule: code_points.induct)
    (auto simp: utf16_unit_point utf16_pair_point split: if_splits)

lemma utf16_unit_point_surrogate:
  "is_high u \<or> is_low u \<Longrightarrow> utf16_units (unit_point u) = [65533]"
  by (simp add: utf16_units_def unit_point_def)

lemma surrogate_not_replacement: "is_high u \<or> is_low u \<Longrightarrow> u \<noteq> 65533"
  by (auto simp: is_high_def is_low_def)

lemma toWellFormed_not_wf:
  "\<not> wf_units us \<Longrightarrow> \<forall>u \<in> set us. u < 65536 \<Longrightarrow>
   concat (map utf16_units (code_points us)) \<noteq> us"
proof (induction us rule: code_points.induct)
  case 1
  then show ?case by simp
next
  case (2 u)
  then show ?case
    using surrogate_not_replacement [of u]
    by (auto simp: utf16_unit_point_surrogate)
next
  case (3 u v us)
  show ?case
  proof (cases "is_high u \<and> is_low v")
    case True
    with 3 show ?thesis by (simp add: utf16_pair_point)
  next
    case False
    show ?thesis
    proof (cases "is_high u \<or> is_low u")
      case True
      then show ?thesis
        using False surrogate_not_replacement [of u]
        by (auto simp: utf16_unit_point_surrogate)
    next
      case n: False
      with False 3 show ?thesis by (simp add: utf16_unit_point)
    qed
  qed
qed

lemma map_unat_of_nat8:
  "\<forall>x \<in> set xs. x < 256 \<Longrightarrow> map unat (map of_nat xs :: 8 word list) = xs"
  by (induction xs) (simp_all add: unat_of_nat)

lemma map_unat_of_nat16:
  "\<forall>x \<in> set xs. x < 65536 \<Longrightarrow> map unat (map of_nat xs :: 16 word list) = xs"
  by (induction xs) (simp_all add: unat_of_nat)

lemma map_of_nat_unat: "map (word_of_nat \<circ> unat) ws = ws"
  by (induction ws) simp_all

lemma unat16_bound: "\<forall>u \<in> set (map unat (s :: 16 word list)). u < 65536"
proof -
  have "unat u < 65536" for u :: "16 word"
    using unsigned_less [of u, where ?'a = nat] by simp
  then show ?thesis by simp
qed

lemma unat8_bound: "\<forall>u \<in> set (map unat (s :: 8 word list)). u < 256"
proof -
  have "unat u < 256" for u :: "8 word"
    using unsigned_less [of u, where ?'a = nat] by simp
  then show ?thesis by simp
qed

lemma base64_roundtrip: "base64_decode (base64_encode bs) = bs"
proof -
  have b: "\<forall>b \<in> set (map unat bs). b < 256" by (rule unat8_bound)
  then have "\<forall>c \<in> set (b64_groups (map unat bs)). c < 128" by (rule b64_groups_bound)
  then have "\<forall>c \<in> set (b64_groups (map unat bs)). c < 65536" by auto
  then have "map unat (base64_encode bs) = b64_groups (map unat bs)"
    unfolding base64_encode_def by (rule map_unat_of_nat16)
  then show ?thesis
    using b by (simp add: base64_decode_def b64_roundtrip map_of_nat_unat)
qed

lemma utf8_roundtrip: "utf8_decode (utf8_encode s) = toWellFormed s"
proof -
  have sc: "\<forall>c \<in> set (code_points (map unat s)). scalar c"
    using unat16_bound by (rule code_points_scalar)
  then have "\<forall>b \<in> set (concat (map utf8_bytes (code_points (map unat s)))). b < 256"
    by (rule concat_utf8_bound)
  then have "map unat (utf8_encode s) = concat (map utf8_bytes (code_points (map unat s)))"
    unfolding utf8_encode_def by (rule map_unat_of_nat8)
  then show ?thesis
    using sc by (simp add: utf8_decode_def toWellFormed_def utf8_dec_concat)
qed

lemma decode_encode: "decodePassword (encodePassword s) = toWellFormed s"
  by (simp add: decodePassword_def encodePassword_def base64_roundtrip utf8_roundtrip)

lemma toWellFormed_fixed: "toWellFormed s = s \<longleftrightarrow> well_formed s"
proof
  assume "well_formed s"
  then have "concat (map utf16_units (code_points (map unat s))) = map unat s"
    unfolding well_formed_def using unat16_bound by (rule toWellFormed_wf)
  then show "toWellFormed s = s"
    by (simp add: toWellFormed_def map_of_nat_unat)
next
  assume a: "toWellFormed s = s"
  show "well_formed s"
  proof (rule ccontr)
    assume "\<not> well_formed s"
    then have "\<not> wf_units (map unat s)" by (simp add: well_formed_def)
    then have ne: "concat (map utf16_units (code_points (map unat s))) \<noteq> map unat s"
      using unat16_bound by (rule toWellFormed_not_wf)
    have "map unat (toWellFormed s) = map unat s" using a by simp
    moreover have "\<forall>c \<in> set (code_points (map unat s)). scalar c"
      using unat16_bound by (rule code_points_scalar)
    then have "\<forall>x \<in> set (concat (map utf16_units (code_points (map unat s)))). x < 65536"
      by (auto simp: utf16_units_def scalar_def split: if_splits)
    then have "map unat (toWellFormed s) = concat (map utf16_units (code_points (map unat s)))"
      unfolding toWellFormed_def by (rule map_unat_of_nat16)
    ultimately show False using ne by simp
  qed
qed

section \<open>The regular-expression test decides the language\<close>










section \<open>Evaluating the sample inputs\<close>

lemma js_eq_Nil: "js s = [] \<longleftrightarrow> s = []"
  by (simp add: js_def)

lemma parseInt_7: "parseInt (js ''7'') = Some 7"
  by (simp add: parseInt_def js_def is_space_def digit_val_def)

lemma parseInt_42: "parseInt (js ''42'') = Some 42"
  by (simp add: parseInt_def js_def is_space_def digit_val_def)

lemma parseInt_9: "parseInt (js ''9'') = Some 9"
  by (simp add: parseInt_def js_def is_space_def digit_val_def)

lemma parseInt_now: "parseInt (js ''1700000000000'') = Some 1700000000000"
  by (simp add: parseInt_def js_def is_space_def digit_val_def)

lemma encode_access: "encodePassword (js ''access'') = js ''YWNjZXNz''"
  by (simp add: encodePassword_def base64_encode_def utf8_encode_def js_def unit_point_def
      is_high_def is_low_def utf8_bytes_def b64_char_def)

lemma encode_wrong: "encodePassword (js ''wrong'') = js ''d3Jvbmc=''"
  by (simp add: encodePassword_def base64_encode_def utf8_encode_def js_def unit_point_def
      is_high_def is_low_def utf8_bytes_def b64_char_def)

lemma encode_empty: "encodePassword [] = []"
  by (simp add: encodePassword_def base64_encode_def utf8_encode_def)

lemma toWellFormed_lone: "toWellFormed [0xD800] = [0xFFFD]"
  by (simp add: toWellFormed_def unit_point_def is_high_def is_low_def utf16_units_def)

lemma well_formed_access: "well_formed (js ''access'')"
  by (simp add: well_formed_def js_def is_high_def is_low_def)

lemma email_ann: "regex_test email_regex (js ''ann@example.com'')"
  by code_simp


lemma length_js: "length (js s) = length s"
  by (simp add: js_def)


lemma bson_string_eq: "bson_string s = toWellFormed s"
  by (simp add: bson_string_def utf8_roundtrip)


lemma toWellFormed_ann_email: "toWellFormed (js ''ann@example.com'') = js ''ann@example.com''"
  by (simp add: toWellFormed_fixed) (simp add: well_formed_def js_def is_high_def is_low_def)

section \<open>Creating a post\<close>

text \<open>
  C6.  A post-creation request whose \<open>content\<close> is falsy (absent and the empty
  string among them) is answered 400 and the store is left as it was.  A request
  with truthy content, when the insert does not reject, is answered 201 with the
  created post, which is appended to the collection; its \<open>replies\<close> is the empty
  sequence, its \<open>id\<close> is \<open>Date.now()\<close>, and its author is \<open>Anonymous\<close> when the
  body has no author.
\<close>

theorem create_post_contract:
  "(\<not> truthy (content b) \<longrightarrow>
      create_post clk fault b s = (respond 400 (Error ''Post content is required''), s))
   \<and> (truthy (content b) \<and> \<not> fault 0 \<longrightarrow>
        create_post clk fault b s =
          (respond 201 (PostDoc (new_post clk b)), s\<lparr>posts := posts s @ [new_post clk b]\<rparr>)
        \<and> post_replies (new_post clk b) = Some []
        \<and> post_id (new_post clk b) = now clk
        \<and> post_content (new_post clk b) = content b
        \<and> (author b = Undefined \<longrightarrow> post_author (new_post clk b) = JStr (js ''Anonymous'')))"
  by (simp add: create_post_def await_def insertOne_def or_else_def new_post_def Let_def)

theorem create_post_contract_witness:
  "create_post sample_clock no_fault empty_body empty_store
     = (respond 400 (Error ''Post content is required''), empty_store)
   \<and> create_post sample_clock no_fault (empty_body\<lparr>content := JStr []\<rparr>) empty_store
     = (respond 400 (Error ''Post content is required''), empty_store)
   \<and> create_post sample_clock no_fault (empty_body\<lparr>content := JStr (js ''hello'')\<rparr>) empty_store
     = (respond 201 (PostDoc
          \<lparr>post_id = 1700000000000, post_author = JStr (js ''Anonymous''),
           post_content = JStr (js ''hello''), post_image = Null,
           post_timestamp = js ''2023-11-14T22:13:20.000Z'', post_replies = Some []\<rparr>),
        \<lparr>users = [],
         posts = [\<lparr>post_id = 1700000000000, post_author = JStr (js ''Anonymous''),
                   post_content = JStr (js ''hello''), post_image = Null,
                   post_timestamp = js ''2023-11-14T22:13:20.000Z'', post_replies = Some []\<rparr>],
         patches = []\<rparr>)"
  using create_post_contract [of empty_body sample_clock no_fault empty_store]
    create_post_contract [of "empty_body\<lparr>content := JStr []\<rparr>" sample_clock no_fault empty_store]
    create_post_contract
      [of "empty_body\<lparr>content := JStr (js ''hello'')\<rparr>" sample_clock no_fault empty_store]
  by (simp add: empty_body_def empty_store_def no_fault_def sample_clock_def new_post_def
      or_else_def js_def)

text \<open>
  C9.  When the body's \<open>image\<close> is absent or otherwise falsy, the post that a
  successful creation stores and returns has \<open>image\<close> equal to \<open>null\<close>: the field
  is present on the created document.
\<close>

theorem create_post_image_null:
  "truthy (content b) \<Longrightarrow> \<not> fault 0 \<Longrightarrow> \<not> truthy (image' b) \<Longrightarrow>
   create_post clk fault b s =
     (respond 201 (PostDoc (new_post clk b)), s\<lparr>posts := posts s @ [new_post clk b]\<rparr>)
   \<and> post_image (new_post clk b) = Null"
  by (simp add: create_post_def await_def insertOne_def or_else_def new_post_def Let_def)

theorem create_post_image_null_witness:
  "truthy (content (hello_body\<lparr>image' := JStr []\<rparr>))
   \<and> \<not> no_fault 0
   \<and> \<not> truthy (image' (hello_body\<lparr>image' := JStr []\<rparr>))
   \<and> create_post sample_clock no_fault (hello_body\<lparr>image' := JStr []\<rparr>) empty_store
       = (respond 201 (PostDoc
            \<lparr>post_id = 1700000000000, post_author = JStr (js ''Anonymous''),
             post_content = JStr (js ''hello''), post_image = Null,
             post_timestamp = js ''2023-11-14T22:13:20.000Z'', post_replies = Some []\<rparr>),
          \<lparr>users = [],
           posts = [\<lparr>post_id = 1700000000000, post_author = JStr (js ''Anonymous''),
                     post_content = JStr (js ''hello''), post_image = Null,
                     post_timestamp = js ''2023-11-14T22:13:20.000Z'', post_replies = Some []\<rparr>],
           patches = []\<rparr>)"
  using create_post_image_null
    [of "hello_body\<lparr>image' := JStr []\<rparr>" no_fault sample_clock empty_store]
  by (simp add: hello_body_def empty_body_def empty_store_def no_fault_def sample_clock_def
      new_post_def or_else_def js_eq_Nil)

section \<open>Deleting a post\<close>

text \<open>
  C7 (as amended).  Without a truthy \<open>isAdmin\<close> the request is answered 403 and
  the store is left as it was, whatever the store calls would do (none is made).
  With a truthy \<open>isAdmin\<close>, when the delete call does not reject: if some post has
  the parsed id, the first such post is removed and the answer is 200; if none
  has, the answer is 404 and the store is unchanged.  A second deletion of the
  same id is answered 404 when exactly one stored post had that id.
\<close>

theorem delete_post_contract:
  "(\<not> truthy (isAdmin b) \<longrightarrow>
      delete_post fault id_param b s
        = (respond 403 (Error ''Only administrators can delete posts''), s))
   \<and> (truthy (isAdmin b) \<and> \<not> fault 0 \<longrightarrow>
        (\<forall>p. findOne (\<lambda>p. parseInt id_param = Some (post_id p)) (posts s) = Some p \<longrightarrow>
           delete_post fault id_param b s
             = (respond 200 (Message ''Post deleted''),
                s\<lparr>posts := takeWhile (\<lambda>p. parseInt id_param \<noteq> Some (post_id p)) (posts s)
                     @ tl (dropWhile (\<lambda>p. parseInt id_param \<noteq> Some (post_id p)) (posts s))\<rparr>))
        \<and> (findOne (\<lambda>p. parseInt id_param = Some (post_id p)) (posts s) = None \<longrightarrow>
             delete_post fault id_param b s = (respond 404 (Error ''Post not found''), s)))
   \<and> (truthy (isAdmin b) \<and> \<not> fault 0 \<and> truthy (isAdmin b') \<and> \<not> fault' 0
        \<and> length (filter (\<lambda>p. parseInt id_param = Some (post_id p)) (posts s)) = 1 \<longrightarrow>
        fst (delete_post fault' id_param b' (snd (delete_post fault id_param b s)))
          = respond 404 (Error ''Post not found''))"
proof (intro conjI impI allI)
  let ?f = "\<lambda>p. parseInt id_param = Some (post_id p)"
  show "delete_post fault id_param b s
        = (respond 403 (Error ''Only administrators can delete posts''), s)"
    if "\<not> truthy (isAdmin b)"
    using that by (simp add: delete_post_def)
  show "delete_post fault id_param b s
             = (respond 200 (Message ''Post deleted''),
                s\<lparr>posts := takeWhile (\<lambda>p. parseInt id_param \<noteq> Some (post_id p)) (posts s)
                     @ tl (dropWhile (\<lambda>p. parseInt id_param \<noteq> Some (post_id p)) (posts s))\<rparr>)"
    if "truthy (isAdmin b) \<and> \<not> fault 0" and "findOne ?f (posts s) = Some p" for p
    using that by (simp add: delete_post_def await_def deleteOne_eq findOne_def)
  show "delete_post fault id_param b s = (respond 404 (Error ''Post not found''), s)"
    if "truthy (isAdmin b) \<and> \<not> fault 0" and "findOne ?f (posts s) = None"
    using that by (simp add: delete_post_def await_def deleteOne_eq findOne_def)
  show "fst (delete_post fault' id_param b' (snd (delete_post fault id_param b s)))
          = respond 404 (Error ''Post not found'')"
    if h: "truthy (isAdmin b) \<and> \<not> fault 0 \<and> truthy (isAdmin b') \<and> \<not> fault' 0
        \<and> length (filter ?f (posts s)) = 1"
  proof -
    from h have "filter ?f (posts s) \<noteq> []" by auto
    then obtain p where p: "find ?f (posts s) = Some p"
      by (cases "find ?f (posts s)") (auto simp: find_None_iff filter_empty_conv)
    from h have "find ?f (takeWhile (\<lambda>d. \<not> ?f d) (posts s) @ tl (dropWhile (\<lambda>d. \<not> ?f d) (posts s))) = None"
      by (intro find_after_delete) simp
    with h p show ?thesis
      by (simp add: delete_post_def await_def deleteOne_eq)
  qed
qed

theorem delete_post_contract_witness:
  "delete_post no_fault (js ''42'') empty_body (empty_store\<lparr>posts := [sample_post]\<rparr>)
     = (respond 403 (Error ''Only administrators can delete posts''),
        empty_store\<lparr>posts := [sample_post]\<rparr>)
   \<and> delete_post no_fault (js ''42'') admin_body (empty_store\<lparr>posts := [sample_post]\<rparr>)
     = (respond 200 (Message ''Post deleted''), empty_store)
   \<and> delete_post no_fault (js ''7'') admin_body (empty_store\<lparr>posts := [sample_post]\<rparr>)
     = (respond 404 (Error ''Post not found''), empty_store\<lparr>posts := [sample_post]\<rparr>)
   \<and> fst (delete_post no_fault (js ''42'') admin_body
        (snd (delete_post no_fault (js ''42'') admin_body (empty_store\<lparr>posts := [sample_post]\<rparr>))))
     = respond 404 (Error ''Post not found'')"
  using delete_post_contract [of empty_body no_fault "js ''42''"
      "empty_store\<lparr>posts := [sample_post]\<rparr>" admin_body no_fault]
    delete_post_contract [of admin_body no_fault "js ''42''"
      "empty_store\<lparr>posts := [sample_post]\<rparr>" admin_body no_fault]
    delete_post_contract [of admin_body no_fault "js ''7''"
      "empty_store\<lparr>posts := [sample_post]\<rparr>" admin_body no_fault]
  by (simp add: parseInt_7 parseInt_42 findOne_def delete_post_def await_def admin_body_def
      empty_body_def sample_post_def sample_reply_def empty_store_def no_fault_def js_eq_Nil)

text \<open>
  The claim as stated fails where two posts share an id: two posts created within
  the same millisecond both get \<open>Date.now()\<close> as id, the first deletion removes
  one of them, and the second deletion of the same id is answered 200, not 404.
\<close>

theorem delete_post_twice_counterexample:
  "fst (delete_post no_fault (js ''1700000000000'') admin_body
     (snd (delete_post no_fault (js ''1700000000000'') admin_body
       (snd (create_post sample_clock no_fault hello_body
         (snd (create_post sample_clock no_fault hello_body empty_store)))))))
   = respond 200 (Message ''Post deleted'')"
  by (simp add: parseInt_now delete_post_def create_post_def await_def insertOne_def
      new_post_def or_else_def admin_body_def hello_body_def empty_body_def empty_store_def
      no_fault_def sample_clock_def js_eq_Nil Let_def)


section \<open>Deleting a reply\<close>

text \<open>
  C5.  For a reply-deletion request with a truthy \<open>isAdmin\<close> whose update call
  does not reject: when no post has the parsed post id the answer is 404; when a
  post has it but none of its replies has the parsed reply id, the answer is 200
  \<open>Reply deleted\<close> and the store is unchanged; and the answer is 404 exactly when
  no post has the post id, whatever the reply id.
\<close>

theorem delete_reply_asymmetry:
  assumes "truthy (isAdmin b)" and "\<not> fault 0"
  shows "((\<forall>p \<in> set (posts s). parseInt postId \<noteq> Some (post_id p)) \<longrightarrow>
            delete_reply fault postId replyId b s = (respond 404 (Error ''Post not found''), s))
       \<and> (\<forall>p. findOne (\<lambda>p. parseInt postId = Some (post_id p)) (posts s) = Some p
              \<and> (\<forall>r \<in> set (case post_replies p of None \<Rightarrow> [] | Some rs \<Rightarrow> rs).
                    parseInt replyId \<noteq> Some (reply_id r))
            \<longrightarrow> delete_reply fault postId replyId b s
                  = (respond 200 (Message ''Reply deleted''), s))
       \<and> (status (fst (delete_reply fault postId replyId b s)) = 404
            \<longleftrightarrow> (\<forall>p \<in> set (posts s). parseInt postId \<noteq> Some (post_id p)))"
proof (intro conjI allI impI)
  let ?f = "\<lambda>p. parseInt postId = Some (post_id p)"
  { assume "\<forall>p \<in> set (posts s). parseInt postId \<noteq> Some (post_id p)"
    then have "find ?f (posts s) = None" by (simp add: find_None_iff)
    with assms show "delete_reply fault postId replyId b s = (respond 404 (Error ''Post not found''), s)"
      by (simp add: delete_reply_def await_def updateOne_eq) }
  { fix p
    assume h: "findOne ?f (posts s) = Some p
       \<and> (\<forall>r \<in> set (case post_replies p of None \<Rightarrow> [] | Some rs \<Rightarrow> rs).
                    parseInt replyId \<noteq> Some (reply_id r))"
    then have f: "find ?f (posts s) = Some p" by (simp add: findOne_def)
    from h have "pull_reply (parseInt replyId) p = p" by (intro pull_reply_absent) simp
    with assms f show "delete_reply fault postId replyId b s
                  = (respond 200 (Message ''Reply deleted''), s)"
      by (simp add: delete_reply_def await_def updateOne_eq first_match_split) }
  show "status (fst (delete_reply fault postId replyId b s)) = 404
            \<longleftrightarrow> (\<forall>p \<in> set (posts s). parseInt postId \<noteq> Some (post_id p))"
  proof -
    obtain n ps where u: "updateOne ?f (pull_reply (parseInt replyId)) (posts s) = (n, ps)"
      by (cases "updateOne ?f (pull_reply (parseInt replyId)) (posts s)")
    have "n = (if \<exists>p \<in> set (posts s). ?f p then 1 else 0)"
      using updateOne_count [of ?f "pull_reply (parseInt replyId)" "posts s"] u by simp
    with assms u show ?thesis
      by (auto simp: delete_reply_def await_def respond_def)
  qed
qed

theorem delete_reply_asymmetry_witness:
  "truthy (isAdmin admin_body) \<and> \<not> no_fault 0
   \<and> delete_reply no_fault (js ''7'') (js ''9'') admin_body (empty_store\<lparr>posts := [sample_post]\<rparr>)
      = (respond 404 (Error ''Post not found''), empty_store\<lparr>posts := [sample_post]\<rparr>)
   \<and> delete_reply no_fault (js ''42'') (js ''9'') admin_body (empty_store\<lparr>posts := [sample_post]\<rparr>)
      = (respond 200 (Message ''Reply deleted''), empty_store\<lparr>posts := [sample_post]\<rparr>)"
  using delete_reply_asymmetry [of admin_body no_fault "empty_store\<lparr>posts := [sample_post]\<rparr>"
      "js ''7''" "js ''9''"]
    delete_reply_asymmetry [of admin_body no_fault "empty_store\<lparr>posts := [sample_post]\<rparr>"
      "js ''42''" "js ''9''"]
  by (simp add: parseInt_7 parseInt_9 parseInt_42 findOne_def admin_body_def empty_body_def
      sample_post_def sample_reply_def empty_store_def no_fault_def js_eq_Nil)

section \<open>Updating a patch\<close>



text \<open>
  C10.  A patch update with a truthy \<open>isAdmin\<close>, an id that a stored patch has,
  and no truthy \<open>version\<close>, \<open>date\<close> or \<open>text\<close> is answered 200 with the matched
  document as it was, and the store is unchanged.
\<close>

theorem update_patch_empty:
  assumes "truthy (isAdmin b)" and "\<not> fault 0"
    and "\<not> truthy (version b)" and "\<not> truthy (date b)" and "\<not> truthy (text' b)"
    and "findOne (\<lambda>p. parseInt id_param = Some (patch_id p)) (patches s) = Some p"
  shows "update_patch fault id_param b s = (respond 200 (PatchDoc p), s)"
  using assms
  by (simp add: update_patch_def await_def findOneAndUpdate_eq findOne_def Let_def
      set_fields_def build_updateFields_def first_match_split)


theorem update_patch_empty_witness:
  "truthy (isAdmin admin_body) \<and> \<not> no_fault 0
   \<and> \<not> truthy (version admin_body) \<and> \<not> truthy (date admin_body) \<and> \<not> truthy (text' admin_body)
   \<and> findOne (\<lambda>p. parseInt (js ''7'') = Some (patch_id p))
        (patches (empty_store\<lparr>patches := [sample_patch]\<rparr>)) = Some sample_patch
   \<and> update_patch no_fault (js ''7'') admin_body (empty_store\<lparr>patches := [sample_patch]\<rparr>)
      = (respond 200 (PatchDoc sample_patch), empty_store\<lparr>patches := [sample_patch]\<rparr>)"
  using update_patch_empty [of admin_body no_fault "js ''7''"
      "empty_store\<lparr>patches := [sample_patch]\<rparr>" sample_patch]
  by (simp add: parseInt_7 findOne_def admin_body_def empty_body_def sample_patch_def
      empty_store_def no_fault_def js_eq_Nil)


section \<open>The credential codec\<close>

text \<open>
  C3 (as amended).  For every well-formed string \<open>s\<close> (no surrogate code unit
  without its partner), decoding the encoding of \<open>s\<close> gives \<open>s\<close> back.
\<close>

theorem codec_roundtrip:
  "well_formed s \<Longrightarrow> decodePassword (encodePassword s) = s"
  by (simp add: decode_encode toWellFormed_fixed)

theorem codec_roundtrip_witness:
  "well_formed (js ''access'') \<and> decodePassword (encodePassword (js ''access'')) = js ''access''"
  using codec_roundtrip [of "js ''access''"] well_formed_access by simp

text \<open>
  For a string with a lone surrogate the round trip fails: \<open>Buffer.from\<close> writes
  U+FFFD in its place, and that is what comes back.
\<close>

theorem codec_roundtrip_counterexample:
  "decodePassword (encodePassword [0xD800]) \<noteq> [0xD800]"
  by (simp add: decode_encode toWellFormed_lone)

section \<open>Registration\<close>




text \<open>
  Two more places where the code leaves the table of the claim as first
  stated.  A numeric password passes checks 4 and 5, and \<open>Buffer.from\<close>
  then throws inside \<open>try\<close>: the answer is 500 though no store call failed.
\<close>

lemma register_numeric_password:
  "register no_fault (ann_body\<lparr>password' := FNum 123456, confirm' := FNum 123456\<rparr>) empty_store
     = (respond 500 (Error ''Server error during registration''), empty_store)"
  by (simp add: register_def length_less_def email_test_def encode_field_def bson_field_def
      email_ann await_def findOne_def ann_body_def empty_store_def no_fault_def js_eq_Nil
      length_js)

text \<open>
  Two usernames that differ only in a lone surrogate are the same string in the
  store: after the first is registered, the second is answered 400 as already
  registered.
\<close>

lemma register_lone_surrogate:
  "register no_fault
     \<lparr>username' = FStr [0xD801, 0x61, 0x62], email' = FStr (js ''bob@example.com''),
      password' = FStr (js ''secret1''), confirm' = FStr (js ''secret1'')\<rparr>
     (snd (register no_fault
        \<lparr>username' = FStr [0xD800, 0x61, 0x62], email' = FStr (js ''ann@example.com''),
         password' = FStr (js ''secret1''), confirm' = FStr (js ''secret1'')\<rparr>
        empty_store))
   = (respond 400 (Error ''This email or username is already registered''),
      empty_store\<lparr>users :=
        [\<lparr>user_username = FStr [0xFFFD, 0x61, 0x62], user_email = js ''ann@example.com'',
          user_password = encodePassword (js ''secret1''), user_isAdmin = False\<rparr>]\<rparr>)"
proof -
  have a: "toWellFormed [0xD800, 0x61, 0x62] = [0xFFFD, 0x61, 0x62]"
    and b: "toWellFormed [0xD801, 0x61, 0x62] = [0xFFFD, 0x61, 0x62]"
    by (simp_all add: toWellFormed_def unit_point_def is_high_def is_low_def utf16_units_def)
  have bob: "regex_test email_regex (js ''bob@example.com'')"
    by code_simp
  show ?thesis
    by (simp add: register_def length_less_def email_test_def encode_field_def bson_field_def
        stored_email_def bson_string_eq a b bob email_ann toWellFormed_ann_email await_def
        findOne_def insertOne_def empty_store_def no_fault_def js_eq_Nil length_js)
qed

section \<open>Login as the fixed administrator\<close>

text \<open>
  C2 (as amended).  Login with the fixed admin email and the password \<open>access\<close>
  is answered 200 with the admin user, whatever the store holds and whatever its
  calls would do.  Login with the fixed admin email and a non-empty password whose
  encoding differs from the admin credential and which matches no stored user
  with that email is answered 401 \<open>Invalid email or password\<close>, when the lookup
  does not reject.
\<close>

theorem login_admin:
  "login fault \<lparr>username = un, email = Some (js ''admin@gmail.com''),
        password = Some (js ''access''), confirm = cf\<rparr> s
     = (respond 200
          (LoggedIn ''Admin login successful!'' (FStr (js ''Admin'')) (js ''admin@gmail.com'') True), s)
   \<and> (p \<noteq> [] \<and> encodePassword p \<noteq> encodePassword (js ''access'')
        \<and> (\<forall>x \<in> set (users s).
              \<not> (user_email x = js ''admin@gmail.com'' \<and> decodePassword (user_password x) = p))
        \<and> \<not> fault 0 \<longrightarrow>
        login fault \<lparr>username = un, email = Some (js ''admin@gmail.com''),
            password = Some p, confirm = cf\<rparr> s
          = (respond 401 (Error ''Invalid email or password''), s))"
proof (intro conjI impI)
  show "login fault \<lparr>username = un, email = Some (js ''admin@gmail.com''),
        password = Some (js ''access''), confirm = cf\<rparr> s
     = (respond 200
          (LoggedIn ''Admin login successful!'' (FStr (js ''Admin'')) (js ''admin@gmail.com'') True), s)"
    by (simp add: login_def present_def str_def ADMIN_def js_eq_Nil)
next
  let ?f = "\<lambda>x. user_email x = js ''admin@gmail.com''"
  assume h: "p \<noteq> [] \<and> encodePassword p \<noteq> encodePassword (js ''access'')
        \<and> (\<forall>x \<in> set (users s).
              \<not> (user_email x = js ''admin@gmail.com'' \<and> decodePassword (user_password x) = p))
        \<and> \<not> fault 0"
  have "decodePassword (user_password x) \<noteq> p" if "find ?f (users s) = Some x" for x
    using that h by (auto simp: find_Some_iff)
  with h show "login fault \<lparr>username = un, email = Some (js ''admin@gmail.com''),
            password = Some p, confirm = cf\<rparr> s
          = (respond 401 (Error ''Invalid email or password''), s)"
    by (cases "find ?f (users s)")
      (simp_all add: login_def present_def str_def ADMIN_def js_eq_Nil await_def findOne_def)
qed

theorem login_admin_witness:
  "login no_fault (admin_login (js ''access'')) (empty_store\<lparr>users := [sample_user]\<rparr>)
     = (respond 200
          (LoggedIn ''Admin login successful!'' (FStr (js ''Admin'')) (js ''admin@gmail.com'') True),
        empty_store\<lparr>users := [sample_user]\<rparr>)
   \<and> js ''wrong'' \<noteq> []
   \<and> encodePassword (js ''wrong'') \<noteq> encodePassword (js ''access'')
   \<and> \<not> no_fault 0
   \<and> login no_fault (admin_login (js ''wrong'')) (empty_store\<lparr>users := [sample_user]\<rparr>)
     = (respond 401 (Error ''Invalid email or password''),
        empty_store\<lparr>users := [sample_user]\<rparr>)"
proof -
  have w: "js ''wrong'' \<noteq> []" by (simp add: js_def)
  have e: "encodePassword (js ''wrong'') \<noteq> encodePassword (js ''access'')"
    unfolding encode_wrong encode_access by (simp add: js_def)
  have u: "\<forall>x \<in> set (users (empty_store\<lparr>users := [sample_user]\<rparr>)).
              \<not> (user_email x = js ''admin@gmail.com''
                  \<and> decodePassword (user_password x) = js ''wrong'')"
    by (simp add: sample_user_def js_def)
  have f: "\<not> no_fault 0" by (simp add: no_fault_def)
  show ?thesis
    using login_admin [of no_fault None None "empty_store\<lparr>users := [sample_user]\<rparr>" "js ''wrong''"]
      w e u f
    by (simp add: admin_login_def)
qed

text \<open>
  The claim as stated fails for the empty password: its encoding differs from
  the admin credential and it matches no stored user, yet the answer is 400, from
  the check that both fields are filled in.
\<close>

theorem login_empty_password_counterexample:
  "encodePassword [] \<noteq> encodePassword (js ''access'')
   \<and> login no_fault (admin_login []) empty_store
       = (respond 400 (Error ''Please fill in all fields''), empty_store)"
  unfolding encode_empty encode_access
  by (simp add: js_def login_def present_def admin_login_def)

section \<open>Seeding the patches collection\<close>

text \<open>
  C8.  At startup, when no call rejects, the seed patch (id 1 and the fixed
  version, date and text) is inserted if the patches collection is empty, and
  nothing is inserted otherwise.  No request handler seeds: on a store whose
  patches collection is empty, every request leaves it empty, except a patch
  creation, which leaves exactly the patch it created.
\<close>

lemma handlers_keep_patches_empty:
  assumes "patches s = []"
  shows "patches (snd (handle clk fault r s)) = []
         \<or> (\<exists>b. r = PostPatch b \<and> patches (snd (handle clk fault r s)) = [new_patch clk b])"
  using assms
  by (cases r)
    (auto simp: list_posts_def create_post_def delete_post_def add_reply_def delete_reply_def
      list_patches_def create_patch_def update_patch_def delete_patch_def register_def
      login_def await_def insertOne_def Let_def
      split: outcome.splits prod.splits option.splits if_splits)

theorem seed_at_startup_only:
  "(\<not> fault 0 \<and> \<not> fault 1 \<and> \<not> fault 2 \<longrightarrow>
      connectDB fault s = Some (if patches s = [] then s\<lparr>patches := [seed_patch]\<rparr> else s))
   \<and> seed_patch =
       \<lparr>patch_id = 1, patch_version = JStr (js ''Patch 2.5.0''),
        patch_date = JStr (js ''December 15, 2024''),
        patch_text = JStr (js ''New Features\<newline>- New Gun'')\<rparr>
   \<and> (patches s = [] \<longrightarrow>
        patches (snd (handle clk fault' r s)) = []
        \<or> (\<exists>b. r = PostPatch b \<and> patches (snd (handle clk fault' r s)) = [new_patch clk b]))"
  using handlers_keep_patches_empty [of s clk fault' r]
  by (auto simp: connectDB_def await_def countDocuments_def insertOne_def seed_patch_def)

theorem seed_at_startup_only_witness:
  "connectDB no_fault empty_store = Some (empty_store\<lparr>patches := [seed_patch]\<rparr>)
   \<and> connectDB no_fault (empty_store\<lparr>patches := [sample_patch]\<rparr>)
       = Some (empty_store\<lparr>patches := [sample_patch]\<rparr>)
   \<and> patches (snd (handle sample_clock no_fault GetPatches empty_store)) = []
   \<and> patches (snd (handle sample_clock no_fault (DeletePatch (js ''7'') admin_body)
        (empty_store\<lparr>patches := [sample_patch]\<rparr>))) = []
   \<and> patches (snd (handle sample_clock no_fault GetPatches
        (snd (handle sample_clock no_fault (DeletePatch (js ''7'') admin_body)
          (empty_store\<lparr>patches := [sample_patch]\<rparr>))))) = []"
  using seed_at_startup_only [of no_fault empty_store sample_clock no_fault GetPatches]
    seed_at_startup_only [of no_fault "empty_store\<lparr>patches := [sample_patch]\<rparr>"
      sample_clock no_fault GetPatches]
  by (simp add: connectDB_def await_def countDocuments_def insertOne_def list_patches_def
      delete_patch_def parseInt_7 admin_body_def empty_body_def sample_patch_def empty_store_def
      no_fault_def sample_clock_def)

end
